theory Spec2Isabelle
  imports Main "HOL-Library.Word"
begin

section \<open>Data model of the extension host (HelloWorldPanel.ts)\<close>

text \<open>
  The exceptions the modelled code can raise: \<open>JSON.parse\<close> on malformed text, a property
  read on \<open>undefined\<close>, and a rejected \<open>workspace.fs.readFile\<close>.
\<close>

datatype error = SyntaxError | TypeError | FileSystemError

type_synonym bytes = "8 word list"

text \<open>One output chunk of a kernel execution: \<open>output.mime\<close> and \<open>output.data\<close>.\<close>

record NotebookCellOutputItem =
  mime :: string
  item_data :: bytes

text \<open>
  A kernel, as far as \<open>_runCode\<close> uses it: \<open>kernel.executeCode(code, token)\<close> is an
  asynchronous stream of batches of output chunks. A stream that ends is the finite list of its
  batches. The two requests of \<open>initialize\<close> differ in their code, so a function of the code
  text gives each request its own stream.
\<close>

type_synonym Kernel = "string \<Rightarrow> NotebookCellOutputItem list list"

text \<open>
  \<open>interface DataFrameColumns\<close>. Parsed values are taken at their declared TypeScript types;
  \<open>rowCount\<close>, a \<open>number\<close>, is taken at integer values.
\<close>

record DataFrameColumn =
  key :: string
  name :: string
  type :: string

record DataFrameColumns =
  column_list :: "DataFrameColumn list"
  indexColumn :: string
  rowCount :: int

text \<open>A cell of the value matrix, \<open>number | string\<close>; the number type is left open.\<close>

datatype 'n cell = CNum 'n | CStr string

text \<open>
  The objects that travel as the \<open>data\<close> of an \<open>update\<close> message: a JavaScript object, seen
  through the four properties the code ever writes or reads. \<open>None\<close> is an absent property
  (reading it gives \<open>undefined\<close>). A \<open>DataFrameValues\<close> has \<open>columns\<close>, \<open>index\<close> and
  \<open>data\<close>; the object literal of \<open>_refresh\<close> has \<open>columns\<close> and \<open>rows\<close>.
\<close>

record 'n dataset =
  columns :: "string list option"
  index :: "'n list option"
  data :: "'n cell list list option"
  rows :: "'n cell list list option"

text \<open>The payload of an error chunk, \<open>JSON.parse(...) as Error\<close>; \<open>stack\<close> is optional.\<close>

record JsError =
  error_name :: string
  error_message :: string
  error_stack :: "string option"

text \<open>
  What the panel gets from its platform (VS Code, Node, the Jupyter extension) and does not
  define itself:
  \<^item> \<open>ErrorMimeType\<close>: \<open>NotebookCellOutputItem.error(new Error('')).mime\<close>;
  \<^item> \<open>decode\<close>: \<open>TextDecoder.decode\<close>;
  \<^item> \<open>JSON_parse_Error\<close>, \<open>JSON_parse_DataFrameColumns\<close>, \<open>JSON_parse_DataFrameValues\<close>:
    \<open>JSON.parse(s) as T\<close> for the three types the code casts to, \<open>Inl\<close> when the parse (or
    the first property read on its result) throws;
  \<^item> \<open>readFile\<close>: \<open>workspace.fs.readFile\<close> of \<open>pythonFiles/vscodeDataFrame.py\<close> followed by
    \<open>Buffer.from(data).toString('utf-8')\<close>;
  \<^item> \<open>Number_toString\<close>: how a template literal renders a number;
  \<^item> \<open>webviewContent\<close>: the HTML of \<open>_getWebviewContent\<close>, which depends on \<open>getUri\<close> and
    \<open>getNonce\<close>;
  \<^item> \<open>jupyterApi\<close>: the exports of the Jupyter extension when installed, reduced to
    \<open>kernels.getKernel(notebook.uri)\<close>;
  \<^item> \<open>activeNotebook\<close>: \<open>window.activeNotebookEditor?.notebook\<close>, identified by its uri.
\<close>

type_synonym Uri = string

record 'n platform =
  ErrorMimeType :: string
  decode :: "bytes \<Rightarrow> string"
  JSON_parse_Error :: "string \<Rightarrow> error + JsError"
  JSON_parse_DataFrameColumns :: "string \<Rightarrow> error + DataFrameColumns"
  JSON_parse_DataFrameValues :: "string \<Rightarrow> error + 'n dataset"
  readFile :: "error + string"
  Number_toString :: "int \<Rightarrow> string"
  webviewContent :: string
  jupyterApi :: "(Uri \<Rightarrow> Kernel option) option"
  activeNotebook :: "Uri option"

section \<open>The kernel code-runner: \<open>_runCode\<close>\<close>

text \<open>
  The local variables of \<open>_runCode\<close> that change in its loops, the lines written by
  \<open>console.log\<close>, and the exception in flight, if any. The cancellation token source,
  created before the loops and disposed in the \<open>finally\<close> block on every path, does not
  enter the result and is left out.
\<close>

record run_state =
  streamingOutput :: "string list"
  console :: "string list"
  thrown :: "error option"

definition error_log_line :: "JsError \<Rightarrow> string" where
  "error_log_line e =
     ''Error executing code '' @ error_name e @ '': '' @ error_message e @ '',/n ''
       @ (case error_stack e of None \<Rightarrow> ''undefined'' | Some s \<Rightarrow> s)"

text \<open>The inner loop, \<open>for (const output of outputs)\<close>. A throw leaves both loops.\<close>

fun for_outputs :: "'n platform \<Rightarrow> NotebookCellOutputItem list \<Rightarrow> run_state \<Rightarrow> run_state" where
  "for_outputs P [] s = s"
| "for_outputs P (output # rest) s =
     (if mime output = ErrorMimeType P then
        (case JSON_parse_Error P (decode P (item_data output)) of
           Inl e \<Rightarrow> s\<lparr>thrown := Some e\<rparr>
         | Inr err \<Rightarrow> for_outputs P rest (s\<lparr>console := console s @ [error_log_line err]\<rparr>))
      else
        for_outputs P rest
          (s\<lparr>streamingOutput := streamingOutput s @ [decode P (item_data output)]\<rparr>))"

text \<open>The outer loop, \<open>for await (const outputs of kernel.executeCode(...))\<close>.\<close>

fun for_await :: "'n platform \<Rightarrow> NotebookCellOutputItem list list \<Rightarrow> run_state \<Rightarrow> run_state" where
  "for_await P [] s = s"
| "for_await P (outputs # rest) s =
     (let s' = for_outputs P outputs s
      in if thrown s' = None then for_await P rest s' else s')"

definition runCode_state :: "'n platform \<Rightarrow> Kernel \<Rightarrow> string \<Rightarrow> run_state" where
  "runCode_state P krnl code =
     for_await P (krnl code) \<lparr>streamingOutput = [], console = [], thrown = None\<rparr>"

text \<open>\<open>_runCode\<close>: the joined output, or the exception that escaped the loops.\<close>

definition runCode :: "'n platform \<Rightarrow> Kernel \<Rightarrow> string \<Rightarrow> error + string" where
  "runCode P krnl code =
     (let s = runCode_state P krnl code
      in case thrown s of
           Some e \<Rightarrow> Inl e
         | None \<Rightarrow> Inr (concat (streamingOutput s)))"

section \<open>Code-template assembly\<close>

definition DataFrameFunc :: string where
  "DataFrameFunc = ''_VSCODE_getDataFrame''"

definition cleanupCode :: string where
  "cleanupCode =
     ''\<newline>try:\<newline>    del _VSCODE_getDataFrame\<newline>except:\<newline>    pass\<newline>''"

text \<open>The local \<open>code\<close> of the two generators.\<close>

definition info_call :: "string \<Rightarrow> string" where
  \<open>info_call variableName = DataFrameFunc @ ''("info", False, '' @ variableName @ '')''\<close>

definition rows_call :: "'n platform \<Rightarrow> string \<Rightarrow> int \<Rightarrow> int \<Rightarrow> string" where
  \<open>rows_call P variableName startIndex endIndex =
     DataFrameFunc @ ''("rows", False, '' @ variableName @ '', ''
       @ Number_toString P startIndex @ '', '' @ Number_toString P endIndex @ '')''\<close>

definition generateCodeForDataFrameColumns :: "'n platform \<Rightarrow> string \<Rightarrow> error + string" where
  "generateCodeForDataFrameColumns P variableName =
     (case readFile P of
        Inl e \<Rightarrow> Inl e
      | Inr initializeCode \<Rightarrow>
          Inr (initializeCode @ ''\<newline>\<newline>'' @ info_call variableName
                 @ ''\<newline>\<newline>'' @ cleanupCode))"

definition generateCodeForDataFrameRows ::
  "'n platform \<Rightarrow> string \<Rightarrow> int \<Rightarrow> int \<Rightarrow> error + string" where
  "generateCodeForDataFrameRows P variableName startIndex endIndex =
     (case readFile P of
        Inl e \<Rightarrow> Inl e
      | Inr initializeCode \<Rightarrow>
          Inr (initializeCode @ ''\<newline>\<newline>''
                 @ rows_call P variableName startIndex endIndex
                 @ ''\<newline>\<newline>'' @ cleanupCode))"

section \<open>The panel controller\<close>

text \<open>
  The two listener registrations the class makes; each returns a disposable that VS Code pushes
  onto the \<open>_disposables\<close> array handed to the registration.
\<close>

datatype disposable = OnDidDispose | OnDidReceiveMessage

text \<open>Messages: webview to host, and host to webview.\<close>

record webview_message =
  in_command :: string
  in_text :: "string option"

record 'n update_message =
  command :: string
  msg_data :: "'n dataset"

text \<open>The order in which an instance touches the outside world and its own fields.\<close>

datatype effect =
    ReadFile
  | ExecuteCode string
  | Store_columns
  | Store_values
  | Set_html
  | Listen disposable
  | Reveal
  | PostMessage
  | Panel_dispose
  | Dispose disposable

text \<open>
  The VS Code \<open>WebviewPanel\<close> (with its \<open>webview\<close>) as far as the class uses it: the HTML
  assigned to it, the listeners registered on it and not yet disposed, the messages posted to
  the webview, the number of \<open>reveal\<close> calls, and whether it has been disposed.
\<close>

record 'n WebviewPanel =
  html :: "string option"
  listeners :: "disposable list"
  posted :: "'n update_message list"
  reveals :: nat
  disposed :: bool

text \<open>
  An instance of \<open>HelloWorldPanel\<close>: its four private fields (\<open>p_x\<close> for \<open>_x\<close>), the rejection
  of the promise chain of \<open>initialize\<close> if it ended in one, and the trace of its effects.
\<close>

record 'n HelloWorldPanel =
  p_panel :: "'n WebviewPanel"
  p_disposables :: "disposable list"
  p_columns :: "DataFrameColumns option"
  p_values :: "'n dataset option"
  rejected :: "error option"
  trace :: "effect list"

definition did :: "effect \<Rightarrow> 'n HelloWorldPanel \<Rightarrow> 'n HelloWorldPanel" where
  "did e this = this\<lparr>trace := trace this @ [e]\<rparr>"

text \<open>\<open>event(listener, thisArgs, this._disposables)\<close>.\<close>

definition register :: "disposable \<Rightarrow> 'n HelloWorldPanel \<Rightarrow> 'n HelloWorldPanel" where
  "register d this =
     did (Listen d)
       (this\<lparr>p_panel := (p_panel this)\<lparr>listeners := listeners (p_panel this) @ [d]\<rparr>,
             p_disposables := p_disposables this @ [d]\<rparr>)"

definition setWebviewMessageListener :: "'n HelloWorldPanel \<Rightarrow> 'n HelloWorldPanel" where
  "setWebviewMessageListener this = register OnDidReceiveMessage this"

definition initializeWebview :: "'n platform \<Rightarrow> 'n HelloWorldPanel \<Rightarrow> 'n HelloWorldPanel" where
  "initializeWebview P this =
     setWebviewMessageListener
       (did Set_html (this\<lparr>p_panel := (p_panel this)\<lparr>html := Some (webviewContent P)\<rparr>\<rparr>))"

definition reject :: "error \<Rightarrow> 'n HelloWorldPanel \<Rightarrow> 'n HelloWorldPanel" where
  "reject e this = this\<lparr>rejected := Some e\<rparr>"

text \<open>
  \<open>initialize\<close>, with the continuation of \<open>getKernel(...).then\<close> run to its end. Every
  \<open>await\<close> that rejects and every \<open>JSON.parse\<close> that throws ends the continuation there.
\<close>

definition initialize ::
  "'n platform \<Rightarrow> (Uri \<Rightarrow> Kernel option) \<Rightarrow> Uri \<Rightarrow> string \<Rightarrow> 'n HelloWorldPanel
     \<Rightarrow> 'n HelloWorldPanel" where
  "initialize P getKernel notebook variable this =
     (case getKernel notebook of
        None \<Rightarrow> this
      | Some krnl \<Rightarrow>
     (let this1 = did ReadFile this in
      case generateCodeForDataFrameColumns P variable of
        Inl e \<Rightarrow> reject e this1
      | Inr fetchVariableValueCode \<Rightarrow>
     (let this2 = did (ExecuteCode fetchVariableValueCode) this1 in
      case runCode P krnl fetchVariableValueCode of
        Inl e \<Rightarrow> reject e this2
      | Inr result \<Rightarrow>
     (case JSON_parse_DataFrameColumns P result of
        Inl e \<Rightarrow> reject e this2
      | Inr val \<Rightarrow>
     (let this3 = did Store_columns (this2\<lparr>p_columns := Some val\<rparr>);
          this4 = did ReadFile this3 in
      case generateCodeForDataFrameRows P variable 0 (rowCount val - 1) of
        Inl e \<Rightarrow> reject e this4
      | Inr fetchVariableValueCode2 \<Rightarrow>
     (let this5 = did (ExecuteCode fetchVariableValueCode2) this4 in
      case runCode P krnl fetchVariableValueCode2 of
        Inl e \<Rightarrow> reject e this5
      | Inr result2 \<Rightarrow>
     (case JSON_parse_DataFrameValues P result2 of
        Inl e \<Rightarrow> reject e this5
      | Inr value2 \<Rightarrow>
          initializeWebview P (did Store_values (this5\<lparr>p_values := Some value2\<rparr>)))))))))"

text \<open>
  The constructor. \<open>jupyterApi && variable && notebook\<close>: an absent extension, an absent or
  empty variable name and an absent notebook are all falsy.
\<close>

definition constructor ::
  "'n platform \<Rightarrow> 'n WebviewPanel \<Rightarrow> Uri option \<Rightarrow> string option \<Rightarrow> 'n HelloWorldPanel" where
  "constructor P pnl notebook variable =
     (let this =
            register OnDidDispose
              \<lparr>p_panel = pnl, p_disposables = [], p_columns = None, p_values = None,
               rejected = None, trace = []\<rparr>
      in case (jupyterApi P, variable, notebook) of
           (Some getKernel, Some v, Some nb) \<Rightarrow>
             (if v \<noteq> [] then initialize P getKernel nb v this else initializeWebview P this)
         | _ \<Rightarrow> initializeWebview P this)"

text \<open>\<open>_refresh\<close> and the listener of \<open>_setWebviewMessageListener\<close>.\<close>

definition refresh :: "'n HelloWorldPanel \<Rightarrow> 'n HelloWorldPanel" where
  "refresh this =
     did PostMessage
       (this\<lparr>p_panel := (p_panel this)
          \<lparr>posted := posted (p_panel this) @
             [\<lparr>command = ''update'',
               msg_data =
                 (case p_values this of
                    Some v \<Rightarrow> v
                  | None \<Rightarrow> \<lparr>columns = Some [], index = None, data = None, rows = Some []\<rparr>)\<rparr>]\<rparr>\<rparr>)"

definition onDidReceiveMessage :: "webview_message \<Rightarrow> 'n HelloWorldPanel \<Rightarrow> 'n HelloWorldPanel" where
  "onDidReceiveMessage message this =
     (let command = in_command message
      in if command = ''refresh'' then refresh this
         else if command = ''connected'' then refresh this
         else this)"

text \<open>
  \<open>disposable.dispose()\<close> on a listener registration removes the listener; the loop of
  \<open>dispose\<close> pops the array from its end until it is empty. The array holds objects only,
  so the test \<open>if (disposable)\<close> succeeds on each.
\<close>

definition dispose_disposable :: "disposable \<Rightarrow> 'n HelloWorldPanel \<Rightarrow> 'n HelloWorldPanel" where
  "dispose_disposable d this =
     did (Dispose d)
       (this\<lparr>p_panel := (p_panel this)\<lparr>listeners := removeAll d (listeners (p_panel this))\<rparr>\<rparr>)"

function dispose_loop :: "'n HelloWorldPanel \<Rightarrow> 'n HelloWorldPanel" where
  "dispose_loop this =
     (if length (p_disposables this) \<noteq> 0 then
        dispose_loop
          (dispose_disposable (last (p_disposables this))
             (this\<lparr>p_disposables := butlast (p_disposables this)\<rparr>))
      else this)"
  by pat_completeness auto
termination
  by (relation "measure (\<lambda>this. length (p_disposables this))")
     (auto simp: dispose_disposable_def did_def)

declare dispose_loop.simps [simp del]

text \<open>
  The extension host as the class sees it: the static \<open>currentPanel\<close>, a reference into the
  store of all instances ever constructed. \<open>render\<close> and \<open>dispose\<close> are the static and the
  instance method; an instance is named by its place in the store.
\<close>

record 'n world =
  currentPanel :: "nat option"
  instances :: "'n HelloWorldPanel list"

definition createWebviewPanel :: "'n WebviewPanel" where
  "createWebviewPanel =
     \<lparr>html = None, listeners = [], posted = [], reveals = 0, disposed = False\<rparr>"

definition reveal :: "'n HelloWorldPanel \<Rightarrow> 'n HelloWorldPanel" where
  "reveal this =
     did Reveal (this\<lparr>p_panel := (p_panel this)\<lparr>reveals := Suc (reveals (p_panel this))\<rparr>\<rparr>)"

definition render :: "'n platform \<Rightarrow> string option \<Rightarrow> 'n world \<Rightarrow> 'n world" where
  "render P variable W =
     (case currentPanel W of
        Some i \<Rightarrow> W\<lparr>instances := (instances W)[i := reveal (instances W ! i)]\<rparr>
      | None \<Rightarrow>
          W\<lparr>currentPanel := Some (length (instances W)),
            instances :=
              instances W @ [constructor P createWebviewPanel (activeNotebook P) variable]\<rparr>)"

definition dispose_instance :: "'n HelloWorldPanel \<Rightarrow> 'n HelloWorldPanel" where
  "dispose_instance this =
     dispose_loop
       (did Panel_dispose (this\<lparr>p_panel := (p_panel this)\<lparr>disposed := True\<rparr>\<rparr>))"

definition dispose :: "nat \<Rightarrow> 'n world \<Rightarrow> 'n world" where
  "dispose i W =
     W\<lparr>currentPanel := None,
       instances := (instances W)[i := dispose_instance (instances W ! i)]\<rparr>"

text \<open>
  What can happen to the extension: the show command runs \<open>render\<close>; the user closes the panel
  of instance \<open>i\<close>, on which VS Code disposes it and fires \<open>onDidDispose\<close>; the webview of
  instance \<open>i\<close> posts a message, which VS Code hands to the registered listener.
\<close>

datatype 'n event =
    Render "'n platform" "string option"
  | Close nat
  | Receive nat webview_message

fun fire :: "'n event \<Rightarrow> 'n world \<Rightarrow> 'n world" where
  "fire (Render P variable) W = render P variable W"
| "fire (Close i) W =
     (if i < length (instances W) \<and> \<not> disposed (p_panel (instances W ! i)) then
        (let this = instances W ! i;
             W' = W\<lparr>instances :=
                      (instances W)[i := this\<lparr>p_panel := (p_panel this)\<lparr>disposed := True\<rparr>\<rparr>]\<rparr>
         in if OnDidDispose \<in> set (listeners (p_panel this)) then dispose i W' else W')
      else W)"
| "fire (Receive i message) W =
     (if i < length (instances W)
          \<and> OnDidReceiveMessage \<in> set (listeners (p_panel (instances W ! i)))
      then W\<lparr>instances := (instances W)[i := onDidReceiveMessage message (instances W ! i)]\<rparr>
      else W)"

definition activate :: "'n world" where
  "activate = \<lparr>currentPanel = None, instances = []\<rparr>"

fun run :: "'n event list \<Rightarrow> 'n world \<Rightarrow> 'n world" where
  "run [] W = W"
| "run (e # es) W = run es (fire e W)"

text \<open>The instances whose panel is still open.\<close>

definition live :: "'n world \<Rightarrow> 'n HelloWorldPanel list" where
  "live W = filter (\<lambda>this. \<not> disposed (p_panel this)) (instances W)"

section \<open>The webview renderer (App.tsx)\<close>

record GridColumn =
  title :: string
  width :: nat

datatype GridCellKind = Text

record GridCell =
  kind :: GridCellKind
  cell_data :: string
  allowOverlay :: bool
  displayData :: string

text \<open>A grid coordinate, \<open>Item = [col, row]\<close>, at the natural numbers the grid passes.\<close>

type_synonym Item = "nat \<times> nat"

text \<open>
  The state of the \<open>App\<close> component: the three \<open>useState\<close> cells (\<open>data\<close> is \<open>None\<close> once
  \<open>setData(undefined)\<close> has run), whether \<open>dataEditorRef.current\<close> is attached, and the
  \<open>updateCells\<close> calls made on it. The ref is attached exactly while the component is
  mounted: React attaches it before the effect adds the listener and detaches it when it
  unmounts the component.
\<close>

record 'n App =
  app_data :: "'n cell list list option"
  gridColumns :: "GridColumn list"
  app_rows :: nat
  dataEditorRef :: bool
  updateCells_calls :: "Item list list"

text \<open>The component as first rendered and mounted, when the effect adds the listener.\<close>

definition App :: "'n App" where
  "App = \<lparr>app_data = Some [], gridColumns = [], app_rows = 0, dataEditorRef = True,
          updateCells_calls = []\<rparr>"

text \<open>The two nested \<open>for\<close> loops that fill \<open>cells\<close>, each \<open>push\<close> appending.\<close>

definition build_cells :: "nat \<Rightarrow> nat \<Rightarrow> Item list" where
  "build_cells data_length columns_length =
     fold (\<lambda>i cells. fold (\<lambda>j cells. cells @ [(j, i)]) [0..<columns_length] cells)
       [0..<data_length] []"

text \<open>The three state setters; on a component that React has unmounted they do nothing.\<close>

definition setGridColumns :: "GridColumn list \<Rightarrow> 'n App \<Rightarrow> 'n App" where
  "setGridColumns v app = (if dataEditorRef app then app\<lparr>gridColumns := v\<rparr> else app)"

definition setData :: "'n cell list list option \<Rightarrow> 'n App \<Rightarrow> 'n App" where
  "setData v app = (if dataEditorRef app then app\<lparr>app_data := v\<rparr> else app)"

definition setRows :: "nat \<Rightarrow> 'n App \<Rightarrow> 'n App" where
  "setRows v app = (if dataEditorRef app then app\<lparr>app_rows := v\<rparr> else app)"

text \<open>
  The render that follows the setters of one listener run, which React applies together. The
  function body evaluates \<open>useState(data.length)\<close> on every render; with \<open>data\<close> undefined that
  throws, and React, having no error boundary here, unmounts the component.
\<close>

definition rerender :: "'n App \<Rightarrow> 'n App" where
  "rerender app =
     (case app_data app of
        None \<Rightarrow> app\<lparr>dataEditorRef := False\<rparr>
      | Some d \<Rightarrow> app)"

text \<open>
  The \<open>message\<close> listener, which stays on \<open>window\<close> whatever becomes of the component. The
  setters called before a throw have taken effect; a property read on an absent \<open>columns\<close> or
  \<open>data\<close> throws.
\<close>

definition on_message :: "'n update_message \<Rightarrow> 'n App \<Rightarrow> 'n App \<times> error option" where
  "on_message message app =
     (if command message = ''update'' then
        (let d = msg_data message in
         case columns d of
           None \<Rightarrow> (app, Some TypeError)
         | Some cs \<Rightarrow>
        (let app1 = setGridColumns (map (\<lambda>c. \<lparr>title = c, width = 100\<rparr>) cs) app;
             app2 = setData (data d) app1 in
         case data d of
           None \<Rightarrow> (rerender app2, Some TypeError)
         | Some rs \<Rightarrow>
        (let app3 = setRows (length rs) app2;
             cells = build_cells (length rs) (length cs)
         in (rerender
               (if dataEditorRef app3
                then app3\<lparr>updateCells_calls := updateCells_calls app3 @ [cells]\<rparr>
                else app3), None))))
      else (app, None))"

text \<open>The messages of a list handled one after the other.\<close>

fun handle :: "'n update_message list \<Rightarrow> 'n App \<Rightarrow> 'n App" where
  "handle [] app = app"
| "handle (message # messages) app = handle messages (fst (on_message message app))"

text \<open>JavaScript indexing of an array: \<open>undefined\<close> out of range.\<close>

definition js_index :: "'a list \<Rightarrow> nat \<Rightarrow> 'a option" where
  "js_index xs i = (if i < length xs then Some (xs ! i) else None)"

text \<open>The template literal \<open>`${val}`\<close>; a number is rendered by the platform.\<close>

definition template_literal :: "('n \<Rightarrow> string) \<Rightarrow> 'n cell option \<Rightarrow> string" where
  "template_literal num_toString val =
     (case val of
        None \<Rightarrow> ''undefined''
      | Some (CNum n) \<Rightarrow> num_toString n
      | Some (CStr s) \<Rightarrow> s)"

text \<open>\<open>getData\<close>: reading \<open>data[row]\<close> or \<open>person[col]\<close> off \<open>undefined\<close> throws.\<close>

definition getData :: "('n \<Rightarrow> string) \<Rightarrow> 'n App \<Rightarrow> Item \<Rightarrow> error + GridCell" where
  "getData num_toString app item =
     (case item of (col, row) \<Rightarrow>
        (case app_data app of
           None \<Rightarrow> Inl TypeError
         | Some d \<Rightarrow>
            (case js_index d row of
               None \<Rightarrow> Inl TypeError
             | Some person \<Rightarrow>
                 (let val = js_index person col
                  in Inr \<lparr>kind = Text, cell_data = template_literal num_toString val,
                          allowOverlay = False,
                          displayData = template_literal num_toString val\<rparr>))))"

section \<open>Invariants of the reachable worlds\<close>

text \<open>
  Every instance other than \<open>currentPanel\<close> has a disposed panel, and the current one is open
  and still listens for its disposal.
\<close>

definition singleton_inv :: "'n world \<Rightarrow> bool" where
  "singleton_inv W \<longleftrightarrow>
     (\<forall>j < length (instances W).
        currentPanel W \<noteq> Some j \<longrightarrow> disposed (p_panel (instances W ! j)))
     \<and> (\<forall>i. currentPanel W = Some i \<longrightarrow>
           i < length (instances W) \<and> \<not> disposed (p_panel (instances W ! i))
           \<and> OnDidDispose \<in> set (listeners (p_panel (instances W ! i))))"

text \<open>Every listener of an instance has its disposable in \<open>_disposables\<close>.\<close>

definition wired :: "'n HelloWorldPanel \<Rightarrow> bool" where
  "wired this \<longleftrightarrow> set (listeners (p_panel this)) \<subseteq> set (p_disposables this)"

definition all_wired :: "'n world \<Rightarrow> bool" where
  "all_wired W \<longleftrightarrow> (\<forall>this \<in> set (instances W). wired this)"

text \<open>While the component is mounted, its row count is the length of its backing array.\<close>

definition rows_match :: "'n App \<Rightarrow> bool" where
  "rows_match app \<longleftrightarrow>
     (dataEditorRef app \<longrightarrow> (\<exists>d. app_data app = Some d \<and> app_rows app = length d))"

section \<open>Concrete platforms and inputs for the examples\<close>

text \<open>A decoder for ASCII payloads and the decimal rendering of an integer.\<close>

definition ascii :: "bytes \<Rightarrow> string" where
  "ascii bs = map (\<lambda>w. char_of (unat w)) bs"

fun digits :: "nat \<Rightarrow> string" where
  "digits n =
     (if n < 10 then [char_of (48 + n)] else digits (n div 10) @ [char_of (48 + n mod 10)])"

definition decimal :: "int \<Rightarrow> string" where
  "decimal i = (if i < 0 then ''-'' @ digits (nat (- i)) else digits (nat i))"

definition text_chunk :: "bytes \<Rightarrow> NotebookCellOutputItem" where
  "text_chunk bs = \<lparr>mime = ''text/plain'', item_data = bs\<rparr>"

definition error_chunk :: "bytes \<Rightarrow> NotebookCellOutputItem" where
  "error_chunk bs = \<lparr>mime = ''application/vnd.code.notebook.error'', item_data = bs\<rparr>"

text \<open>
  A platform whose JSON parser knows three texts: \<open>{}\<close> as an error payload, \<open>2\<close> as a
  schema of two rows, and \<open>v\<close> as a one-column dataset of two rows. Its template file holds
  the single letter \<open>T\<close>.
\<close>

definition example_values :: "int dataset" where
  "example_values =
     \<lparr>columns = Some [''a''], index = Some [0, 1], data = Some [[CNum 1], [CStr ''x'']],
      rows = None\<rparr>"

definition example_platform ::
  "(Uri \<Rightarrow> Kernel option) option \<Rightarrow> Uri option \<Rightarrow> int platform" where
  "example_platform api notebook =
     \<lparr>ErrorMimeType = ''application/vnd.code.notebook.error'',
      decode = ascii,
      JSON_parse_Error =
        (\<lambda>s. if s = ''{}''
             then Inr \<lparr>error_name = ''undefined'', error_message = ''undefined'',
                       error_stack = None\<rparr>
             else Inl SyntaxError),
      JSON_parse_DataFrameColumns =
        (\<lambda>s. if s = ''2'' then Inr \<lparr>column_list = [], indexColumn = ''i'', rowCount = 2\<rparr>
             else Inl SyntaxError),
      JSON_parse_DataFrameValues = (\<lambda>s. if s = ''v'' then Inr example_values else Inl SyntaxError),
      readFile = Inr ''T'',
      Number_toString = decimal,
      webviewContent = ''<html>'',
      jupyterApi = api,
      activeNotebook = notebook\<rparr>"

text \<open>
  A kernel that prints \<open>2\<close> for the schema request on the variable \<open>df\<close>, and an error
  chunk followed by \<open>v\<close> for anything else.
\<close>

definition example_kernel :: Kernel where
  \<open>example_kernel code =
     (if code = ''T\<newline>\<newline>_VSCODE_getDataFrame("info", False, df)\<newline>\<newline>\<newline>try:\<newline>    del _VSCODE_getDataFrame\<newline>except:\<newline>    pass\<newline>''
      then [[text_chunk [0x32]]]
      else [[error_chunk [0x7B, 0x7D]], [text_chunk [0x76]]])\<close>

text \<open>An instance as the constructor has it when it calls \<open>initialize\<close>.\<close>

definition new_instance :: "'n HelloWorldPanel" where
  "new_instance =
     register OnDidDispose
       \<lparr>p_panel = createWebviewPanel, p_disposables = [], p_columns = None, p_values = None,
        rejected = None, trace = []\<rparr>"

text \<open>
  A platform with the Jupyter extension installed and a notebook open, where no kernel
  resolves for the notebook.
\<close>

definition unresolved_platform :: "int platform" where
  "unresolved_platform = example_platform (Some (\<lambda>uri. None)) (Some ''nb'')"

definition connected :: webview_message where
  "connected = \<lparr>in_command = ''connected'', in_text = None\<rparr>"

definition update :: "'n dataset \<Rightarrow> 'n update_message" where
  "update d = \<lparr>command = ''update'', msg_data = d\<rparr>"

definition empty_dataset :: "'n dataset" where
  "empty_dataset = \<lparr>columns = Some [], index = None, data = Some [], rows = None\<rparr>"


definition garbled_kernel :: Kernel where
  "garbled_kernel code = [[text_chunk [0x78]]]"

text \<open>A dataset whose second row is shorter than its first, and one without \<open>data\<close>.\<close>

definition ragged_values :: "int dataset" where
  "ragged_values =
     \<lparr>columns = Some [''a'', ''b''], index = Some [0, 1],
      data = Some [[CNum 1, CNum 2], [CNum 3]], rows = None\<rparr>"

definition dataless_values :: "int dataset" where
  "dataless_values = \<lparr>columns = Some [], index = None, data = None, rows = Some []\<rparr>"

section \<open>Properties of the code-runner\<close>

lemma ascii_examples:
  "ascii [0x61] = ''a''" "ascii [0x62, 0x63] = ''bc''" "ascii [0x7B, 0x7D] = ''{}''"
  "ascii [0x78] = ''x''" "ascii [0x32] = ''2''" "ascii [0x76] = ''v''"
  by code_simp+

lemma decimal_examples:
  "decimal 0 = ''0''" "decimal (-1) = ''-1''" "decimal 1 = ''1''" "decimal 41 = ''41''"
  by code_simp+













section \<open>Properties of the code-template assembly\<close>

text \<open>
  Claim C6. When the template file can be read, the payload for a variable name \<open>v\<close> is the
  file's contents, a blank line, the call \<open>_VSCODE_getDataFrame("info", False, v)\<close> in schema
  mode or \<open>_VSCODE_getDataFrame("rows", False, v, start, end)\<close> in rows mode, a blank line,
  and the cleanup block; \<open>v\<close> stands in the call as it was given, whatever characters it holds.
\<close>

theorem generated_code_layout:
  assumes "readFile P = Inr template"
  shows \<open>generateCodeForDataFrameColumns P v =
           Inr (template @ ''\<newline>\<newline>''
                 @ ''_VSCODE_getDataFrame("info", False, '' @ v @ '')''
                 @ ''\<newline>\<newline>''
                 @ ''\<newline>try:\<newline>    del _VSCODE_getDataFrame\<newline>except:\<newline>    pass\<newline>'')
         \<and> generateCodeForDataFrameRows P v startIndex endIndex =
           Inr (template @ ''\<newline>\<newline>''
                 @ ''_VSCODE_getDataFrame("rows", False, '' @ v @ '', ''
                 @ Number_toString P startIndex @ '', '' @ Number_toString P endIndex @ '')''
                 @ ''\<newline>\<newline>''
                 @ ''\<newline>try:\<newline>    del _VSCODE_getDataFrame\<newline>except:\<newline>    pass\<newline>'')\<close>
  using assms
  by (simp add: generateCodeForDataFrameColumns_def generateCodeForDataFrameRows_def
        info_call_def rows_call_def DataFrameFunc_def cleanupCode_def)

theorem generated_code_layout_witness:
  \<open>generateCodeForDataFrameColumns (example_platform None None) ''df); import os  #'' =
     Inr ''T\<newline>\<newline>_VSCODE_getDataFrame("info", False, df); import os  #)\<newline>\<newline>\<newline>try:\<newline>    del _VSCODE_getDataFrame\<newline>except:\<newline>    pass\<newline>''
   \<and> generateCodeForDataFrameRows (example_platform None None) ''df'' 0 41 =
     Inr ''T\<newline>\<newline>_VSCODE_getDataFrame("rows", False, df, 0, 41)\<newline>\<newline>\<newline>try:\<newline>    del _VSCODE_getDataFrame\<newline>except:\<newline>    pass\<newline>''\<close>
  using generated_code_layout
          [of "example_platform None None" "''T''" "''df); import os  #''" 0 41]
        generated_code_layout [of "example_platform None None" "''T''" "''df''" 0 41]
  by (simp add: example_platform_def decimal_examples)

section \<open>Properties of the fetch sequence\<close>

lemma example_codes:
  \<open>generateCodeForDataFrameColumns (example_platform api nb) ''df'' =
     Inr ''T\<newline>\<newline>_VSCODE_getDataFrame("info", False, df)\<newline>\<newline>\<newline>try:\<newline>    del _VSCODE_getDataFrame\<newline>except:\<newline>    pass\<newline>''\<close>
  \<open>generateCodeForDataFrameRows (example_platform api nb) ''df'' 0 1 =
     Inr ''T\<newline>\<newline>_VSCODE_getDataFrame("rows", False, df, 0, 1)\<newline>\<newline>\<newline>try:\<newline>    del _VSCODE_getDataFrame\<newline>except:\<newline>    pass\<newline>''\<close>
  by (simp_all add: generateCodeForDataFrameColumns_def generateCodeForDataFrameRows_def
        info_call_def rows_call_def DataFrameFunc_def cleanupCode_def example_platform_def
        decimal_examples)

lemma example_runs:
  \<open>runCode (example_platform api nb) example_kernel
     ''T\<newline>\<newline>_VSCODE_getDataFrame("info", False, df)\<newline>\<newline>\<newline>try:\<newline>    del _VSCODE_getDataFrame\<newline>except:\<newline>    pass\<newline>''
     = Inr ''2''\<close>
  \<open>runCode (example_platform api nb) example_kernel
     ''T\<newline>\<newline>_VSCODE_getDataFrame("rows", False, df, 0, 1)\<newline>\<newline>\<newline>try:\<newline>    del _VSCODE_getDataFrame\<newline>except:\<newline>    pass\<newline>''
     = Inr ''v''\<close>
  by (simp_all add: runCode_def runCode_state_def example_kernel_def example_platform_def
        text_chunk_def error_chunk_def ascii_examples)

lemma example_parses:
  "JSON_parse_DataFrameColumns (example_platform api nb) ''2'' =
     Inr \<lparr>column_list = [], indexColumn = ''i'', rowCount = 2\<rparr>"
  "JSON_parse_DataFrameValues (example_platform api nb) ''v'' = Inr example_values"
  "webviewContent (example_platform api nb) = ''<html>''"
  by (simp_all add: example_platform_def)

text \<open>On every path, the HTML is assigned only when both results have been stored.\<close>

lemma initialize_html_needs_both:
  "html (p_panel (initialize P getKernel notebook variable this)) \<noteq> html (p_panel this) \<Longrightarrow>
   (\<exists>val value2. p_columns (initialize P getKernel notebook variable this) = Some val
      \<and> p_values (initialize P getKernel notebook variable this) = Some value2)"
  by (auto simp: initialize_def Let_def reject_def did_def initializeWebview_def
        setWebviewMessageListener_def register_def split: option.splits sum.splits)

lemma garbled_run:
  "runCode (example_platform api nb) garbled_kernel code = Inr ''x''"
  by (simp add: runCode_def runCode_state_def garbled_kernel_def example_platform_def
        text_chunk_def ascii_examples)

lemma garbled_parse:
  "JSON_parse_DataFrameColumns (example_platform api nb) ''x'' = Inl SyntaxError"
  by (simp add: example_platform_def)

lemma new_instance_fields:
  "trace new_instance = [Listen OnDidDispose]" "html (p_panel new_instance) = None"
  "p_columns new_instance = None" "p_values new_instance = None"
  by (simp_all add: new_instance_def register_def did_def createWebviewPanel_def)

text \<open>
  Claim C2. On every path, what \<open>initialize\<close> does, in order, and what it leaves stored:
  with no kernel, nothing; otherwise it reads the template and, if that succeeds, runs the
  schema code; only when that run returns text that parses to a schema \<open>val\<close> does it store
  \<open>val\<close>, read the template again and run the rows code, which is the one for start index
  \<open>0\<close> and end index \<open>rowCount val - 1\<close>; and only when the rows run returns text that parses
  does it store the values and then assign the HTML and register the message listener. On every
  other path the HTML stays as it was, and no rows request other than this one is ever issued.
\<close>

theorem initialize_schema_then_all_rows:
  "(trace (initialize P getKernel notebook variable this),
    html (p_panel (initialize P getKernel notebook variable this)),
    p_columns (initialize P getKernel notebook variable this),
    p_values (initialize P getKernel notebook variable this)) =
   (case getKernel notebook of
      None \<Rightarrow> (trace this, html (p_panel this), p_columns this, p_values this)
    | Some krnl \<Rightarrow>
   (case generateCodeForDataFrameColumns P variable of
      Inl e \<Rightarrow> (trace this @ [ReadFile], html (p_panel this), p_columns this, p_values this)
    | Inr code1 \<Rightarrow>
   (case runCode P krnl code1 of
      Inl e \<Rightarrow>
        (trace this @ [ReadFile, ExecuteCode code1],
         html (p_panel this), p_columns this, p_values this)
    | Inr result \<Rightarrow>
   (case JSON_parse_DataFrameColumns P result of
      Inl e \<Rightarrow>
        (trace this @ [ReadFile, ExecuteCode code1],
         html (p_panel this), p_columns this, p_values this)
    | Inr val \<Rightarrow>
   (case generateCodeForDataFrameRows P variable 0 (rowCount val - 1) of
      Inl e \<Rightarrow>
        (trace this @ [ReadFile, ExecuteCode code1, Store_columns, ReadFile],
         html (p_panel this), Some val, p_values this)
    | Inr code2 \<Rightarrow>
   (case runCode P krnl code2 of
      Inl e \<Rightarrow>
        (trace this @ [ReadFile, ExecuteCode code1, Store_columns, ReadFile, ExecuteCode code2],
         html (p_panel this), Some val, p_values this)
    | Inr result2 \<Rightarrow>
   (case JSON_parse_DataFrameValues P result2 of
      Inl e \<Rightarrow>
        (trace this @ [ReadFile, ExecuteCode code1, Store_columns, ReadFile, ExecuteCode code2],
         html (p_panel this), Some val, p_values this)
    | Inr value2 \<Rightarrow>
        (trace this @ [ReadFile, ExecuteCode code1, Store_columns, ReadFile, ExecuteCode code2,
                       Store_values, Set_html, Listen OnDidReceiveMessage],
         Some (webviewContent P), Some val, Some value2))))))))"
proof (cases "getKernel notebook")
  case None
  then show ?thesis by (simp add: initialize_def)
next
  case (Some krnl)
  show ?thesis
    unfolding initialize_def Some
    by (simp add: Let_def reject_def did_def initializeWebview_def
          setWebviewMessageListener_def register_def split: sum.splits)
qed

theorem initialize_schema_then_all_rows_witness:
  \<open>trace (initialize (example_platform None None) (\<lambda>uri. Some example_kernel) ''nb'' ''df''
            new_instance) =
     [Listen OnDidDispose,
      ReadFile,
      ExecuteCode ''T\<newline>\<newline>_VSCODE_getDataFrame("info", False, df)\<newline>\<newline>\<newline>try:\<newline>    del _VSCODE_getDataFrame\<newline>except:\<newline>    pass\<newline>'',
      Store_columns,
      ReadFile,
      ExecuteCode ''T\<newline>\<newline>_VSCODE_getDataFrame("rows", False, df, 0, 1)\<newline>\<newline>\<newline>try:\<newline>    del _VSCODE_getDataFrame\<newline>except:\<newline>    pass\<newline>'',
      Store_values, Set_html, Listen OnDidReceiveMessage]
   \<and> p_values (initialize (example_platform None None) (\<lambda>uri. Some example_kernel) ''nb'' ''df''
                 new_instance)
       = Some example_values
   \<and> html (p_panel (initialize (example_platform None None) (\<lambda>uri. Some example_kernel) ''nb''
                      ''df'' new_instance))
       = Some ''<html>''
   \<and> trace (initialize (example_platform None None) (\<lambda>uri. Some garbled_kernel) ''nb'' ''df''
              new_instance) =
     [Listen OnDidDispose,
      ReadFile,
      ExecuteCode ''T\<newline>\<newline>_VSCODE_getDataFrame("info", False, df)\<newline>\<newline>\<newline>try:\<newline>    del _VSCODE_getDataFrame\<newline>except:\<newline>    pass\<newline>'']
   \<and> html (p_panel (initialize (example_platform None None) (\<lambda>uri. Some garbled_kernel) ''nb''
                      ''df'' new_instance))
       = None\<close>
  using initialize_schema_then_all_rows
          [of "example_platform None None" "\<lambda>uri. Some example_kernel" "''nb''" "''df''"
              new_instance]
        initialize_schema_then_all_rows
          [of "example_platform None None" "\<lambda>uri. Some garbled_kernel" "''nb''" "''df''"
              new_instance]
  by (simp add: example_codes example_runs example_parses garbled_run garbled_parse
        new_instance_fields)

section \<open>Properties of the message listener\<close>

text \<open>
  Both commands are answered alike, with one \<open>update\<close> message: the stored values when there
  are some, and otherwise the object literal with the properties \<open>columns\<close> and \<open>rows\<close>.
\<close>

lemma refresh_reply:
  assumes "in_command message = ''connected'' \<or> in_command message = ''refresh''"
  shows "posted (p_panel (onDidReceiveMessage message this)) =
           posted (p_panel this) @
             [\<lparr>command = ''update'',
               msg_data =
                 (case p_values this of
                    Some v \<Rightarrow> v
                  | None \<Rightarrow> \<lparr>columns = Some [], index = None, data = None, rows = Some []\<rparr>)\<rparr>]"
  using assms by (auto simp: onDidReceiveMessage_def refresh_def did_def Let_def)

lemma example_constructor:
  "constructor (example_platform None None) createWebviewPanel None None =
     \<lparr>p_panel = \<lparr>html = Some ''<html>'', listeners = [OnDidDispose, OnDidReceiveMessage],
                 posted = [], reveals = 0, disposed = False\<rparr>,
      p_disposables = [OnDidDispose, OnDidReceiveMessage], p_columns = None, p_values = None,
      rejected = None, trace = [Listen OnDidDispose, Set_html, Listen OnDidReceiveMessage]\<rparr>"
  by (simp add: constructor_def example_platform_def createWebviewPanel_def register_def did_def
        initializeWebview_def setWebviewMessageListener_def)

text \<open>
  Claim C3, at a panel opened without a variable: the answer to \<open>connected\<close> is one
  \<open>update\<close> message whose data has \<open>columns\<close> and \<open>rows\<close> and no \<open>data\<close> property, where
  the protocol and the webview expect \<open>columns\<close> and \<open>data\<close>.
\<close>

theorem refresh_fallback_lacks_data:
  "posted (p_panel (onDidReceiveMessage connected
             (constructor (example_platform None None) createWebviewPanel None None))) =
     [\<lparr>command = ''update'',
       msg_data = \<lparr>columns = Some [], index = None, data = None, rows = Some []\<rparr>\<rparr>]"
  by (simp add: example_constructor onDidReceiveMessage_def refresh_def did_def connected_def)

text \<open>
  The webview's listener throws on that message, at \<open>d.data.length\<close>, after \<open>setData\<close> has
  been given \<open>undefined\<close>; the next render throws too and the component is unmounted.
\<close>

lemma fallback_update_throws_in_webview:
  "on_message
     \<lparr>command = ''update'',
      msg_data = \<lparr>columns = Some [], index = None, data = None, rows = Some []\<rparr>\<rparr>
     (App :: int App)
   = (\<lparr>app_data = None, gridColumns = [], app_rows = 0, dataEditorRef = False,
       updateCells_calls = []\<rparr>, Some TypeError)"
  by (simp add: on_message_def App_def setGridColumns_def setData_def rerender_def)

section \<open>Properties of the constructor\<close>

text \<open>
  Without the Jupyter extension, a variable name or a notebook, the constructor initializes the
  webview at once.
\<close>

lemma constructor_falls_back:
  assumes "jupyterApi P = None \<or> variable = None \<or> variable = Some [] \<or> notebook = None"
  shows "constructor P createWebviewPanel notebook variable =
     \<lparr>p_panel = \<lparr>html = Some (webviewContent P), listeners = [OnDidDispose, OnDidReceiveMessage],
                 posted = [], reveals = 0, disposed = False\<rparr>,
      p_disposables = [OnDidDispose, OnDidReceiveMessage], p_columns = None, p_values = None,
      rejected = None, trace = [Listen OnDidDispose, Set_html, Listen OnDidReceiveMessage]\<rparr>"
  using assms
  by (auto simp: constructor_def createWebviewPanel_def register_def did_def Let_def
        initializeWebview_def setWebviewMessageListener_def split: option.splits)

text \<open>With all three present and no kernel for the notebook, \<open>initialize\<close> returns early.\<close>

lemma constructor_kernel_unresolved:
  assumes "jupyterApi P = Some getKernel" and "getKernel nb = None" and "v \<noteq> []"
  shows "constructor P createWebviewPanel (Some nb) (Some v) =
     \<lparr>p_panel = \<lparr>html = None, listeners = [OnDidDispose],
                 posted = [], reveals = 0, disposed = False\<rparr>,
      p_disposables = [OnDidDispose], p_columns = None, p_values = None,
      rejected = None, trace = [Listen OnDidDispose]\<rparr>"
  using assms
  by (simp add: constructor_def createWebviewPanel_def register_def did_def initialize_def)

text \<open>
  Claim C7, at a panel opened for the variable \<open>df\<close> of a notebook for which no kernel
  resolves: the panel is created, its HTML is never assigned, no message listener is registered,
  and a \<open>connected\<close> message from the webview gets no answer.
\<close>

theorem unresolved_kernel_leaves_webview_blank:
  "render unresolved_platform (Some ''df'') activate =
     \<lparr>currentPanel = Some 0,
      instances =
        [\<lparr>p_panel = \<lparr>html = None, listeners = [OnDidDispose], posted = [], reveals = 0,
                     disposed = False\<rparr>,
          p_disposables = [OnDidDispose], p_columns = None, p_values = None,
          rejected = None, trace = [Listen OnDidDispose]\<rparr>]\<rparr>
   \<and> fire (Receive 0 connected) (render unresolved_platform (Some ''df'') activate) =
       render unresolved_platform (Some ''df'') activate"
proof -
  have c: "constructor unresolved_platform createWebviewPanel (Some ''nb'') (Some ''df'') =
     \<lparr>p_panel = \<lparr>html = None, listeners = [OnDidDispose],
                 posted = [], reveals = 0, disposed = False\<rparr>,
      p_disposables = [OnDidDispose], p_columns = None, p_values = None,
      rejected = None, trace = [Listen OnDidDispose]\<rparr>"
    by (rule constructor_kernel_unresolved [of _ "\<lambda>uri. None"])
       (simp_all add: unresolved_platform_def example_platform_def)
  have a: "activeNotebook unresolved_platform = Some ''nb''"
    by (simp add: unresolved_platform_def example_platform_def)
  show ?thesis
    by (simp add: render_def activate_def a c)
qed

section \<open>How each operation changes the fields of an instance\<close>

lemma initializeWebview_fields [simp]:
  "disposed (p_panel (initializeWebview P this)) = disposed (p_panel this)"
  "listeners (p_panel (initializeWebview P this)) = listeners (p_panel this) @ [OnDidReceiveMessage]"
  "p_disposables (initializeWebview P this) = p_disposables this @ [OnDidReceiveMessage]"
  "html (p_panel (initializeWebview P this)) = Some (webviewContent P)"
  by (simp_all add: initializeWebview_def setWebviewMessageListener_def register_def did_def)

lemma initialize_disposed [simp]:
  "disposed (p_panel (initialize P getKernel nb v this)) = disposed (p_panel this)"
  by (simp add: initialize_def Let_def reject_def did_def split: option.splits sum.splits)

lemma initialize_listeners:
  "set (listeners (p_panel this)) \<subseteq> set (listeners (p_panel (initialize P getKernel nb v this)))"
  by (auto simp: initialize_def Let_def reject_def did_def split: option.splits sum.splits)

lemma initialize_wired:
  "wired this \<Longrightarrow> wired (initialize P getKernel nb v this)"
  by (auto simp: wired_def initialize_def Let_def reject_def did_def
        split: option.splits sum.splits)

lemma constructor_disposed [simp]:
  "disposed (p_panel (constructor P pnl nb v)) = disposed pnl"
  by (simp add: constructor_def Let_def register_def did_def split: option.splits)

lemma constructor_listens_dispose:
  "OnDidDispose \<in> set (listeners (p_panel (constructor P pnl nb v)))"
proof -
  let ?new = "register OnDidDispose
              \<lparr>p_panel = pnl, p_disposables = [], p_columns = None, p_values = None,
               rejected = None, trace = []\<rparr>"
  have "OnDidDispose \<in> set (listeners (p_panel ?new))"
    by (simp add: register_def did_def)
  then have "OnDidDispose \<in> set (listeners (p_panel (initialize P g n x ?new)))" for g n x
    using initialize_listeners [of ?new P g n x] by blast
  moreover have "OnDidDispose \<in> set (listeners (p_panel (initializeWebview P ?new)))"
    by (simp add: register_def did_def)
  ultimately show ?thesis
    by (simp add: constructor_def Let_def split: option.splits)
qed

lemma constructor_wired:
  assumes "listeners pnl = []"
  shows "wired (constructor P pnl nb v)"
proof -
  let ?new = "register OnDidDispose
              \<lparr>p_panel = pnl, p_disposables = [], p_columns = None, p_values = None,
               rejected = None, trace = []\<rparr>"
  have w: "wired ?new" using assms by (simp add: wired_def register_def did_def)
  have "wired (initializeWebview P ?new)" using w by (auto simp: wired_def)
  with w initialize_wired [OF w] show ?thesis
    by (simp add: constructor_def Let_def split: option.splits)
qed

lemma onDidReceiveMessage_fields [simp]:
  "disposed (p_panel (onDidReceiveMessage m this)) = disposed (p_panel this)"
  "listeners (p_panel (onDidReceiveMessage m this)) = listeners (p_panel this)"
  "p_disposables (onDidReceiveMessage m this) = p_disposables this"
  by (simp_all add: onDidReceiveMessage_def refresh_def did_def Let_def)

lemma reveal_fields [simp]:
  "disposed (p_panel (reveal this)) = disposed (p_panel this)"
  "listeners (p_panel (reveal this)) = listeners (p_panel this)"
  "p_disposables (reveal this) = p_disposables this"
  "reveals (p_panel (reveal this)) = Suc (reveals (p_panel this))"
  by (simp_all add: reveal_def did_def)

lemma dispose_disposable_fields [simp]:
  "p_disposables (dispose_disposable d this) = p_disposables this"
  "disposed (p_panel (dispose_disposable d this)) = disposed (p_panel this)"
  "listeners (p_panel (dispose_disposable d this)) = removeAll d (listeners (p_panel this))"
  "trace (dispose_disposable d this) = trace this @ [Dispose d]"
  by (simp_all add: dispose_disposable_def did_def)

text \<open>The loop of \<open>dispose\<close>, by computation induction.\<close>

lemma dispose_loop_disposables: "p_disposables (dispose_loop this) = []"
  by (induction this rule: dispose_loop.induct) (subst dispose_loop.simps, simp)

lemma dispose_loop_disposed: "disposed (p_panel (dispose_loop this)) = disposed (p_panel this)"
  by (induction this rule: dispose_loop.induct) (subst dispose_loop.simps, simp)

lemma dispose_loop_trace:
  "trace (dispose_loop this) = trace this @ map Dispose (rev (p_disposables this))"
proof (induction this rule: dispose_loop.induct)
  case (1 this)
  show ?case
  proof (cases "p_disposables this = []")
    case True
    then show ?thesis by (subst dispose_loop.simps) simp
  next
    case False
    then have "rev (p_disposables this) =
                 rev (butlast (p_disposables this) @ [last (p_disposables this)])"
      by simp
    then have r: "rev (p_disposables this) =
                    last (p_disposables this) # rev (butlast (p_disposables this))"
      by (simp only: rev_append rev.simps append_Nil append_Cons)
    show ?thesis
      using False "1.IH" by (subst dispose_loop.simps) (simp add: r)
  qed
qed

lemma dispose_loop_listeners:
  "listeners (p_panel (dispose_loop this)) =
     filter (\<lambda>d. d \<notin> set (p_disposables this)) (listeners (p_panel this))"
proof (induction this rule: dispose_loop.induct)
  case (1 this)
  show ?case
  proof (cases "p_disposables this = []")
    case True
    then show ?thesis by (subst dispose_loop.simps) simp
  next
    case False
    then have "set (p_disposables this) =
                 set (butlast (p_disposables this) @ [last (p_disposables this)])"
      by simp
    then have s: "set (p_disposables this) =
                    insert (last (p_disposables this)) (set (butlast (p_disposables this)))"
      by (simp only: set_append list.set Un_insert_right Un_empty_right)
    show ?thesis
      using False "1.IH"
      by (subst dispose_loop.simps)
         (auto simp: s removeAll_filter_not_eq intro: filter_cong)
  qed
qed

lemma dispose_instance_fields:
  "p_disposables (dispose_instance this) = []"
  "disposed (p_panel (dispose_instance this))"
  "trace (dispose_instance this) =
     trace this @ Panel_dispose # map Dispose (rev (p_disposables this))"
  "listeners (p_panel (dispose_instance this)) =
     filter (\<lambda>d. d \<notin> set (p_disposables this)) (listeners (p_panel this))"
  by (simp_all add: dispose_instance_def dispose_loop_disposables dispose_loop_disposed
        dispose_loop_trace dispose_loop_listeners did_def)

section \<open>The singleton invariant\<close>

lemma render_inv: "singleton_inv W \<Longrightarrow> singleton_inv (render P v W)"
proof (cases "currentPanel W")
  case None
  assume a: "singleton_inv W"
  have r: "render P v W =
             W\<lparr>currentPanel := Some (length (instances W)),
               instances :=
                 instances W @ [constructor P createWebviewPanel (activeNotebook P) v]\<rparr>"
    using None by (simp add: render_def)
  from a None have all: "\<forall>j < length (instances W). disposed (p_panel (instances W ! j))"
    by (simp add: singleton_inv_def)
  show ?thesis
    unfolding r singleton_inv_def using all
    by (simp add: nth_append constructor_listens_dispose createWebviewPanel_def)
next
  case (Some i)
  assume a: "singleton_inv W"
  have r: "render P v W = W\<lparr>instances := (instances W)[i := reveal (instances W ! i)]\<rparr>"
    using Some by (simp add: render_def)
  show ?thesis
    unfolding r using a Some by (simp add: singleton_inv_def nth_list_update)
qed

lemma close_inv: "singleton_inv W \<Longrightarrow> singleton_inv (fire (Close i) W)"
proof (cases "i < length (instances W) \<and> \<not> disposed (p_panel (instances W ! i))")
  case False
  assume "singleton_inv W"
  with False show ?thesis by auto
next
  case True
  assume a: "singleton_inv W"
  with True have cur: "currentPanel W = Some i"
    unfolding singleton_inv_def by blast
  with a have l: "OnDidDispose \<in> set (listeners (p_panel (instances W ! i)))"
    by (simp add: singleton_inv_def)
  from a cur
  have others: "\<forall>j < length (instances W). j \<noteq> i \<longrightarrow> disposed (p_panel (instances W ! j))"
    by (simp add: singleton_inv_def)
  have "singleton_inv
          (dispose i
             (W\<lparr>instances :=
                  (instances W)
                    [i := (instances W ! i)
                            \<lparr>p_panel := (p_panel (instances W ! i))\<lparr>disposed := True\<rparr>\<rparr>]\<rparr>))"
    using others True
    by (simp add: singleton_inv_def dispose_def nth_list_update dispose_instance_fields)
  then show ?thesis using True l by (simp add: Let_def)
qed

lemma receive_inv: "singleton_inv W \<Longrightarrow> singleton_inv (fire (Receive i m) W)"
  by (simp add: singleton_inv_def nth_list_update)

lemma fire_inv: "singleton_inv W \<Longrightarrow> singleton_inv (fire e W)"
  by (cases e) (simp_all only: render_inv close_inv receive_inv fire.simps(1))

lemma run_inv: "singleton_inv W \<Longrightarrow> singleton_inv (run es W)"
  by (induction es arbitrary: W) (simp_all add: fire_inv del: fire.simps)

lemma activate_inv: "singleton_inv activate"
  by (simp add: singleton_inv_def activate_def)

lemma filter_at_most_one:
  "\<forall>j < length xs. j \<noteq> i \<longrightarrow> \<not> Q (xs ! j) \<Longrightarrow> length (filter Q xs) \<le> 1"
proof (induction xs arbitrary: i)
  case Nil
  then show ?case by simp
next
  case (Cons x xs)
  show ?case
  proof (cases i)
    case 0
    with Cons.prems have "\<forall>j < length xs. \<not> Q (xs ! j)" by auto
    then have "filter Q xs = []" by (auto simp: filter_empty_conv in_set_conv_nth)
    then show ?thesis by simp
  next
    case (Suc k)
    with Cons.prems have "\<not> Q x" by auto
    moreover from Suc Cons.prems have "\<forall>j < length xs. j \<noteq> k \<longrightarrow> \<not> Q (xs ! j)" by auto
    ultimately show ?thesis using Cons.IH [of k] by simp
  qed
qed

lemma inv_live_le_1:
  assumes "singleton_inv W"
  shows "length (live W) \<le> 1"
proof (cases "currentPanel W")
  case None
  with assms
  have "\<forall>j < length (instances W). j \<noteq> 0 \<longrightarrow> \<not> (\<not> disposed (p_panel (instances W ! j)))"
    by (simp add: singleton_inv_def)
  then show ?thesis unfolding live_def by (rule filter_at_most_one)
next
  case (Some i)
  with assms
  have "\<forall>j < length (instances W). j \<noteq> i \<longrightarrow> \<not> (\<not> disposed (p_panel (instances W ! j)))"
    by (simp add: singleton_inv_def)
  then show ?thesis unfolding live_def by (rule filter_at_most_one)
qed

lemma inv_current_live:
  assumes "singleton_inv W" and "currentPanel W = Some i"
  shows "length (live W) = 1"
proof -
  from assms have "i < length (instances W)" "\<not> disposed (p_panel (instances W ! i))"
    by (simp_all add: singleton_inv_def)
  then have "instances W ! i \<in> set (live W)"
    by (auto simp: live_def)
  then have "live W \<noteq> []" by auto
  with inv_live_le_1 [OF assms(1)] show ?thesis by (cases "live W") auto
qed

lemma render_current: "\<exists>i. currentPanel (render P v W) = Some i"
  by (auto simp: render_def split: option.splits)

lemma example_world:
  "render (example_platform None None) None activate =
     \<lparr>currentPanel = Some 0,
      instances = [constructor (example_platform None None) createWebviewPanel None None]\<rparr>"
  by (simp add: render_def activate_def example_platform_def)

text \<open>
  Claim C5. After any sequence of show commands, panel closings and webview messages since
  activation, at most one instance has an open panel. A \<open>render\<close> that finds a current panel
  reveals it and constructs nothing: the store of instances keeps its length and the current
  panel stays the same, its reveal count one higher. After one \<open>render\<close>, and again after a
  second one, exactly one instance has an open panel, and the second \<open>render\<close> has constructed
  none.
\<close>

theorem render_keeps_one_panel:
  "length (live (run es activate)) \<le> 1
   \<and> (\<forall>i. currentPanel (run es activate) = Some i \<longrightarrow>
         length (instances (render P v (run es activate))) = length (instances (run es activate))
         \<and> reveals (p_panel (instances (render P v (run es activate)) ! i)) =
             Suc (reveals (p_panel (instances (run es activate) ! i)))
         \<and> currentPanel (render P v (run es activate)) = Some i)
   \<and> length (live (render P v (run es activate))) = 1
   \<and> length (live (render P' v' (render P v (run es activate)))) = 1
   \<and> length (instances (render P' v' (render P v (run es activate)))) =
       length (instances (render P v (run es activate)))"
proof -
  let ?W = "run es activate"
  have a: "singleton_inv ?W" by (rule run_inv [OF activate_inv])
  have b: "singleton_inv (render P v ?W)" by (rule render_inv [OF a])
  have c: "singleton_inv (render P' v' (render P v ?W))" by (rule render_inv [OF b])
  obtain k where k: "currentPanel (render P v ?W) = Some k"
    using render_current by blast
  obtain k' where k': "currentPanel (render P' v' (render P v ?W)) = Some k'"
    using render_current by blast
  have 1: "length (live ?W) \<le> 1" by (rule inv_live_le_1 [OF a])
  have 2: "length (live (render P v ?W)) = 1" by (rule inv_current_live [OF b k])
  have 3: "length (live (render P' v' (render P v ?W))) = 1"
    by (rule inv_current_live [OF c k'])
  have 4: "length (instances (render P' v' (render P v ?W))) =
             length (instances (render P v ?W))"
    using k by (simp add: render_def [of P' v'])
  have 5: "currentPanel ?W = Some i \<Longrightarrow>
         length (instances (render P v ?W)) = length (instances ?W)
         \<and> reveals (p_panel (instances (render P v ?W) ! i)) =
             Suc (reveals (p_panel (instances ?W ! i)))
         \<and> currentPanel (render P v ?W) = Some i" for i
    using a by (simp add: render_def singleton_inv_def)
  from 1 2 3 4 5 show ?thesis by blast
qed

theorem render_keeps_one_panel_witness:
  "currentPanel (run [Render (example_platform None None) None] activate) = Some 0
   \<and> length (instances (render (example_platform None None) None
               (run [Render (example_platform None None) None] activate))) = 1
   \<and> reveals (p_panel (instances (render (example_platform None None) None
               (run [Render (example_platform None None) None] activate)) ! 0)) = 1
   \<and> length (live (render (example_platform None None) None
               (run [Render (example_platform None None) None] activate))) = 1"
proof -
  let ?P = "example_platform None None"
  let ?c = "constructor ?P createWebviewPanel None None"
  have w1: "run [Render ?P None] activate = \<lparr>currentPanel = Some 0, instances = [?c]\<rparr>"
    by (simp add: example_world)
  have w2: "render ?P None \<lparr>currentPanel = Some 0, instances = [?c]\<rparr> =
              \<lparr>currentPanel = Some 0, instances = [reveal ?c]\<rparr>"
    by (simp add: render_def)
  show ?thesis
    using render_keeps_one_panel [of "[Render ?P None]" ?P None ?P None]
    unfolding w1 w2 by (simp add: example_constructor)
qed

section \<open>Disposal\<close>

lemma wired_update:
  "all_wired W \<Longrightarrow> wired this \<Longrightarrow> all_wired (W\<lparr>instances := (instances W)[i := this]\<rparr>)"
  by (auto simp: all_wired_def dest!: set_update_subset_insert [THEN subsetD])

lemma wired_update_current:
  "all_wired W \<Longrightarrow> wired this \<Longrightarrow>
   all_wired (W\<lparr>currentPanel := c, instances := (instances W)[i := this]\<rparr>)"
  by (auto simp: all_wired_def dest!: set_update_subset_insert [THEN subsetD])

lemma wired_nth: "all_wired W \<Longrightarrow> i < length (instances W) \<Longrightarrow> wired (instances W ! i)"
  by (simp add: all_wired_def)

lemma wired_reveal: "wired this \<Longrightarrow> wired (reveal this)"
  by (simp add: wired_def)

lemma wired_receive: "wired this \<Longrightarrow> wired (onDidReceiveMessage m this)"
  by (simp add: wired_def)

lemma wired_dispose_instance: "wired this \<Longrightarrow> wired (dispose_instance this)"
  by (auto simp: wired_def dispose_instance_fields)

lemma wired_mark: "wired this \<Longrightarrow> wired (this\<lparr>p_panel := (p_panel this)\<lparr>disposed := True\<rparr>\<rparr>)"
  by (simp add: wired_def)

lemma render_wired:
  assumes "singleton_inv W" and "all_wired W"
  shows "all_wired (render P v W)"
proof (cases "currentPanel W")
  case None
  then show ?thesis
    using assms(2) constructor_wired [of createWebviewPanel P "activeNotebook P" v]
    by (simp add: render_def all_wired_def createWebviewPanel_def)
next
  case (Some i)
  with assms(1) have "i < length (instances W)" by (simp add: singleton_inv_def)
  then have "wired (reveal (instances W ! i))"
    using assms(2) by (simp add: wired_nth wired_reveal)
  then show ?thesis using Some assms(2) by (simp add: render_def wired_update)
qed

lemma dispose_wired:
  assumes "all_wired W"
  shows "all_wired (dispose i W)"
proof (cases "i < length (instances W)")
  case True
  then show ?thesis
    using assms
    by (simp add: dispose_def wired_update_current wired_dispose_instance wired_nth)
next
  case False
  then show ?thesis
    using assms by (simp add: dispose_def all_wired_def list_update_beyond)
qed

lemma fire_wired:
  assumes "singleton_inv W" and w: "all_wired W"
  shows "all_wired (fire e W)"
proof (cases e)
  case (Render P v)
  then show ?thesis using assms by (simp add: render_wired)
next
  case (Close i)
  show ?thesis
  proof (cases "i < length (instances W)")
    case True
    have "all_wired (W\<lparr>instances := (instances W)
            [i := (instances W ! i)
                    \<lparr>p_panel := (p_panel (instances W ! i))\<lparr>disposed := True\<rparr>\<rparr>]\<rparr>)"
      using w True by (simp add: wired_update wired_mark wired_nth)
    then show ?thesis using Close w by (simp add: Let_def dispose_wired)
  next
    case False
    then show ?thesis using Close w by simp
  qed
next
  case (Receive i m)
  show ?thesis
  proof (cases "i < length (instances W)")
    case True
    then have "wired (onDidReceiveMessage m (instances W ! i))"
      using w by (simp add: wired_nth wired_receive)
    then show ?thesis using Receive w by (simp add: wired_update)
  next
    case False
    then show ?thesis using Receive w by simp
  qed
qed

lemma run_wired: "singleton_inv W \<Longrightarrow> all_wired W \<Longrightarrow> all_wired (run es W)"
  by (induction es arbitrary: W) (simp_all add: fire_inv fire_wired del: fire.simps)

lemma activate_wired: "all_wired activate"
  by (simp add: all_wired_def activate_def)

text \<open>
  Claim C9. Whenever \<open>dispose\<close> runs on an instance of a world reached since activation,
  afterwards \<open>currentPanel\<close> is undefined, the instance's \<open>_disposables\<close> is empty, the panel
  has been disposed and then every disposable that was in \<open>_disposables\<close> has been disposed
  once, last registered first, no listener of the instance is left, and a message from its
  webview changes nothing.
\<close>

theorem dispose_releases_listeners:
  assumes "i < length (instances (run es activate))"
  shows "currentPanel (dispose i (run es activate)) = None
       \<and> p_disposables (instances (dispose i (run es activate)) ! i) = []
       \<and> trace (instances (dispose i (run es activate)) ! i) =
           trace (instances (run es activate) ! i)
             @ Panel_dispose # map Dispose (rev (p_disposables (instances (run es activate) ! i)))
       \<and> listeners (p_panel (instances (dispose i (run es activate)) ! i)) = []
       \<and> fire (Receive i message) (dispose i (run es activate)) = dispose i (run es activate)"
proof -
  let ?W = "run es activate"
  have "all_wired ?W"
    by (rule run_wired [OF activate_inv activate_wired])
  with assms have w: "wired (instances ?W ! i)" by (simp add: wired_nth)
  then have l: "filter (\<lambda>d. d \<notin> set (p_disposables (instances ?W ! i)))
                 (listeners (p_panel (instances ?W ! i))) = []"
    by (auto simp: wired_def filter_empty_conv)
  have n: "instances (dispose i ?W) ! i = dispose_instance (instances ?W ! i)"
    using assms by (simp add: dispose_def)
  have "listeners (p_panel (instances (dispose i ?W) ! i)) = []"
    by (simp add: n dispose_instance_fields l)
  then show ?thesis
    using assms by (simp add: n dispose_instance_fields) (simp add: dispose_def)
qed

theorem dispose_releases_listeners_witness:
  "0 < length (instances (run [Render (example_platform None None) None] activate))
   \<and> currentPanel (dispose 0 (run [Render (example_platform None None) None] activate)) = None
   \<and> p_disposables
       (instances (dispose 0 (run [Render (example_platform None None) None] activate)) ! 0) = []
   \<and> trace (instances (dispose 0 (run [Render (example_platform None None) None] activate)) ! 0) =
       [Listen OnDidDispose, Set_html, Listen OnDidReceiveMessage,
        Panel_dispose, Dispose OnDidReceiveMessage, Dispose OnDidDispose]
   \<and> listeners (p_panel
       (instances (dispose 0 (run [Render (example_platform None None) None] activate)) ! 0)) = []
   \<and> fire (Receive 0 connected)
       (dispose 0 (run [Render (example_platform None None) None] activate))
       = dispose 0 (run [Render (example_platform None None) None] activate)"
  using dispose_releases_listeners [of 0 "[Render (example_platform None None) None]" connected]
  by (simp add: example_world example_constructor)

section \<open>Properties of the webview renderer\<close>

lemma inner_loop:
  "fold (\<lambda>j cells. cells @ [(j, i)]) js acc = acc @ map (\<lambda>j. (j, i)) js"
  by (induction js arbitrary: acc) simp_all

lemma outer_loop:
  "fold (\<lambda>i cells. fold (\<lambda>j cells. cells @ [(j, i)]) js cells) is acc =
     acc @ concat (map (\<lambda>i. map (\<lambda>j. (j, i)) js) is)"
  by (induction "is" arbitrary: acc) (simp_all add: inner_loop)

lemma build_cells_rows:
  "build_cells R C = concat (map (\<lambda>i. map (\<lambda>j. (j, i)) [0..<C]) [0..<R])"
  by (simp add: build_cells_def outer_loop)

lemma build_cells_product:
  "build_cells R C = map (\<lambda>(i, j). (j, i)) (List.product [0..<R] [0..<C])"
proof -
  have "concat (map (\<lambda>i. map (\<lambda>j. (j, i)) js) is) =
          map (\<lambda>(i, j). (j, i)) (List.product is js)"
    for "is" js :: "nat list"
    by (induction "is") (simp_all add: comp_def)
  then show ?thesis by (simp add: build_cells_rows)
qed

lemma build_cells_set: "set (build_cells R C) = {(j, i). j < C \<and> i < R}"
  by (auto simp: build_cells_product)

lemma build_cells_length: "length (build_cells R C) = R * C"
  by (simp add: build_cells_product)

lemma build_cells_distinct: "distinct (build_cells R C)"
  unfolding build_cells_product
  by (rule distinct_map [THEN iffD2]) (auto simp: distinct_product inj_on_def)

lemma build_cells_examples:
  "build_cells (Suc (Suc 0)) (Suc 0) = [(0, 0), (0, Suc 0)]" "build_cells 0 0 = []"
  by (simp_all add: build_cells_def upt_rec)

text \<open>
  Claim C4. An \<open>update\<close> message that carries the column names \<open>cs\<close> and the rows \<open>rs\<close>,
  handled while the grid is mounted, leaves a grid of exactly \<open>length cs\<close> columns, the
  \<open>k\<close>-th titled with the \<open>k\<close>-th name and 100 wide, and \<open>length rs\<close> rows over the new
  backing array, and makes one \<open>updateCells\<close> call whose list holds each coordinate \<open>(j, i)\<close>
  with \<open>j < length cs\<close> and \<open>i < length rs\<close> once, row by row, and nothing else.
\<close>

theorem update_rebuilds_grid:
  assumes "command message = ''update''"
    and "columns (msg_data message) = Some cs"
    and "data (msg_data message) = Some rs"
    and "dataEditorRef app"
  shows "\<exists>app' cells.
           on_message message app = (app', None)
         \<and> gridColumns app' = map (\<lambda>c. \<lparr>title = c, width = 100\<rparr>) cs
         \<and> length (gridColumns app') = length cs
         \<and> app_rows app' = length rs
         \<and> app_data app' = Some rs
         \<and> updateCells_calls app' = updateCells_calls app @ [cells]
         \<and> cells = concat (map (\<lambda>i. map (\<lambda>j. (j, i)) [0..<length cs]) [0..<length rs])
         \<and> set cells = {(j, i). j < length cs \<and> i < length rs}
         \<and> distinct cells
         \<and> length cells = length rs * length cs"
  using assms
  by (simp add: on_message_def Let_def setGridColumns_def setData_def setRows_def rerender_def
        build_cells_set build_cells_distinct build_cells_length build_cells_rows [symmetric])

theorem update_rebuilds_grid_witness:
  "on_message (update example_values) App =
     (\<lparr>app_data = Some [[CNum 1], [CStr ''x'']], gridColumns = [\<lparr>title = ''a'', width = 100\<rparr>],
       app_rows = 2, dataEditorRef = True, updateCells_calls = [[(0, 0), (0, 1)]]\<rparr>, None)
   \<and> on_message (update (empty_dataset :: int dataset)) App =
     (\<lparr>app_data = Some [], gridColumns = [], app_rows = 0, dataEditorRef = True,
       updateCells_calls = [[]]\<rparr>, None)"
  using update_rebuilds_grid [of "update example_values" "[''a'']" "[[CNum 1], [CStr ''x'']]" App]
        update_rebuilds_grid [of "update (empty_dataset :: int dataset)" "[]" "[]" App]
  by (simp add: update_def example_values_def empty_dataset_def App_def on_message_def
        setGridColumns_def setData_def setRows_def rerender_def build_cells_examples)


text \<open>Once the component is unmounted, no message changes anything.\<close>

lemma unmounted_stays:
  assumes "\<not> dataEditorRef app"
  shows "fst (on_message m app) = app"
  using assms
  by (cases app)
     (simp add: on_message_def Let_def setGridColumns_def setData_def setRows_def rerender_def
        split: option.splits)


text \<open>
  Handled first, such an update unmounts the component, and an update that follows it changes
  nothing more.
\<close>

lemma update_after_dataless_is_lost:
  "fst (on_message (update example_values) (fst (on_message (update dataless_values) App))) =
     \<lparr>app_data = None, gridColumns = [], app_rows = 0, dataEditorRef = False,
      updateCells_calls = []\<rparr>"
  by (simp add: update_def example_values_def dataless_values_def App_def on_message_def
        setGridColumns_def setData_def setRows_def rerender_def)



text \<open>
  A panel answers every request with the same message, and handling any message a second time
  changes none of the three.
\<close>

lemma repeated_message_changes_nothing:
  "gridColumns (fst (on_message m (fst (on_message m App)))) = gridColumns (fst (on_message m App))
   \<and> app_rows (fst (on_message m (fst (on_message m App)))) = app_rows (fst (on_message m App))
   \<and> app_data (fst (on_message m (fst (on_message m App)))) = app_data (fst (on_message m App))"
  by (simp add: on_message_def Let_def App_def setGridColumns_def setData_def setRows_def
        rerender_def split: option.splits)

text \<open>The row count follows the backing array through every message.\<close>

lemma on_message_rows_match:
  assumes "rows_match app"
  shows "rows_match (fst (on_message m app))"
  using assms
  by (auto simp: rows_match_def on_message_def Let_def setGridColumns_def setData_def
        setRows_def rerender_def split: option.splits)

lemma handle_rows_match: "rows_match app \<Longrightarrow> rows_match (handle messages app)"
  by (induction messages arbitrary: app) (simp_all add: on_message_rows_match)

lemma App_rows_match: "rows_match App"
  by (simp add: rows_match_def App_def)

text \<open>
  On an array that lacks the row itself, \<open>getData\<close> throws; the grid, which is given the row
  count, asks for no such row.
\<close>

lemma getData_missing_row_throws:
  "getData decimal App (0, 0) = Inl TypeError"
  by (simp add: getData_def App_def js_index_def)

lemma getData_in_row:
  assumes "app_data app = Some d" and "row < length d"
  shows "getData num_toString app (col, row) =
           Inr \<lparr>kind = Text,
                cell_data = template_literal num_toString (js_index (d ! row) col),
                allowOverlay = False,
                displayData = template_literal num_toString (js_index (d ! row) col)\<rparr>"
  using assms by (simp add: getData_def js_index_def Let_def)

text \<open>
  Claim C10. In every state the mounted component reaches by handling messages, for every
  lookup the grid makes, that is for every row below the row count it was given and any column:
  the backing array has that row, \<open>getData\<close> returns a cell, and if the row holds no value at
  the column, the cell's \<open>data\<close> and \<open>displayData\<close> are the string \<open>undefined\<close>.
\<close>

theorem getData_missing_cell_is_undefined:
  assumes "dataEditorRef (handle messages App)"
    and "row < app_rows (handle messages App)"
  shows "\<exists>d. app_data (handle messages App) = Some d \<and> row < length d
           \<and> (\<exists>cell. getData num_toString (handle messages App) (col, row) = Inr cell)
           \<and> (js_index (d ! row) col = None \<longrightarrow>
                getData num_toString (handle messages App) (col, row) =
                  Inr \<lparr>kind = Text, cell_data = ''undefined'', allowOverlay = False,
                       displayData = ''undefined''\<rparr>)"
proof -
  have "rows_match (handle messages App)"
    by (rule handle_rows_match [OF App_rows_match])
  with assms(1) obtain d
    where d: "app_data (handle messages App) = Some d"
      and n: "app_rows (handle messages App) = length d"
    by (auto simp: rows_match_def)
  from assms(2) n have r: "row < length d" by simp
  show ?thesis
    using d r getData_in_row [OF d r, of num_toString col]
    by (auto simp: template_literal_def)
qed

theorem getData_missing_cell_is_undefined_witness:
  "dataEditorRef (handle [update ragged_values] App)
   \<and> app_rows (handle [update ragged_values] App) = 2
   \<and> getData decimal (handle [update ragged_values] App) (1, 1) =
       Inr \<lparr>kind = Text, cell_data = ''undefined'', allowOverlay = False,
            displayData = ''undefined''\<rparr>
   \<and> getData decimal (handle [update ragged_values] App) (0, 1) =
       Inr \<lparr>kind = Text, cell_data = ''3'', allowOverlay = False, displayData = ''3''\<rparr>"
proof -
  have h: "handle [update ragged_values] App =
             \<lparr>app_data = Some [[CNum 1, CNum 2], [CNum 3]],
              gridColumns = [\<lparr>title = ''a'', width = 100\<rparr>, \<lparr>title = ''b'', width = 100\<rparr>],
              app_rows = 2, dataEditorRef = True,
              updateCells_calls = [build_cells (Suc (Suc 0)) (Suc (Suc 0))]\<rparr>"
    by (simp add: update_def ragged_values_def App_def on_message_def setGridColumns_def
          setData_def setRows_def rerender_def)
  have three: "decimal 3 = ''3''" by code_simp
  show ?thesis
    using getData_missing_cell_is_undefined [of "[update ragged_values]" 1 decimal 1]
    unfolding h
    by (simp add: getData_def js_index_def template_literal_def three)
qed

end
